theory Spec2Isabelle
  imports Complex_Main "HOL-Library.AList"
begin

section \<open>Numbers, arrays and candles\<close>

text \<open>
  The program is TypeScript. Its \<open>number\<close> values are modelled as HOL reals: exact
  arithmetic, no rounding. The indicators, the strategy and the executor guard their
  divisions or divide by a constant or a period, and stay within the reals; the options
  service does not, and is modelled on reals extended by \<open>NaN\<close> and the two infinities.

  \<open>arr.slice(-n)\<close> keeps the last \<open>n\<close> elements, the whole array when it has fewer, and
  (since \<open>-0\<close> is \<open>0\<close>) the whole array when \<open>n = 0\<close>. \<open>arr.reduce((a, b) => a + b, 0)\<close>
  is a left fold. \<open>xs.slice(1).map((c, i) => f(c, xs[i]))\<close> pairs every element but the
  first with its predecessor.
\<close>

definition slice_last :: "nat \<Rightarrow> 'a list \<Rightarrow> 'a list" where
  "slice_last n xs = (if n = 0 then xs else drop (length xs - n) xs)"

definition reduce_sum :: "real list \<Rightarrow> real" where
  "reduce_sum xs = foldl (+) 0 xs"

definition with_prev :: "'a list \<Rightarrow> ('a \<times> 'a) list" where
  "with_prev xs = zip (tl xs) xs"

text \<open>
  The candles come from the gateway as objects of which the code reads \<open>open\<close>, \<open>high\<close>,
  \<open>low\<close>, \<open>close\<close> and \<open>volume\<close>.
\<close>

record candle =
  open' :: real
  high :: real
  low :: real
  close :: real
  volume :: real

datatype side = BUY | SELL

text \<open>A detector returns \<open>'BUY' | 'SELL' | null\<close>: \<open>None\<close> is \<open>null\<close>.\<close>

type_synonym opinion = "side option"

section \<open>SignalDetectionService (trading-engine)\<close>

definition calculateMA :: "real list \<Rightarrow> nat \<Rightarrow> real" where
  "calculateMA prices period =
     (if length prices < period then 0
      else reduce_sum (slice_last period prices) / real period)"

definition calculateEMA :: "real list \<Rightarrow> nat \<Rightarrow> real" where
  "calculateEMA prices period =
     (case prices of
        [] \<Rightarrow> 0
      | p # ps \<Rightarrow>
          (let multiplier = 2 / (real period + 1)
           in foldl (\<lambda>ema x. x * multiplier + ema * (1 - multiplier)) p ps))"

definition calculateRSI :: "candle list \<Rightarrow> nat \<Rightarrow> real" where
  "calculateRSI candles period =
     (let closes = map close candles;
          changes = map (\<lambda>(c, prev). c - prev) (with_prev closes);
          gains = filter (\<lambda>c. c > 0) changes;
          losses = map abs (filter (\<lambda>c. c < 0) changes);
          avgGain = reduce_sum gains / real period;
          avgLoss = reduce_sum losses / real period;
          rs = (if avgLoss = 0 then 0 else avgGain / avgLoss)
      in 100 - 100 / (1 + rs))"

definition calculateStdDev :: "real list \<Rightarrow> real \<Rightarrow> real" where
  "calculateStdDev prices mean =
     (let squareDiff = map (\<lambda>p. (p - mean)\<^sup>2) prices;
          avgSquareDiff = reduce_sum squareDiff / real (length prices)
      in sqrt avgSquareDiff)"

definition detectMAcrossover :: "candle list \<Rightarrow> nat \<Rightarrow> nat \<Rightarrow> opinion" where
  "detectMAcrossover candles shortMA longMA =
     (if length candles < longMA + 1 then None
      else
        (let closes = map close candles;
             shortAvg = calculateMA closes shortMA;
             longAvg = calculateMA closes longMA;
             prevShortAvg = calculateMA (butlast closes) shortMA;
             prevLongAvg = calculateMA (butlast closes) longMA
         in if prevShortAvg \<le> prevLongAvg \<and> shortAvg > longAvg then Some BUY
            else if prevShortAvg \<ge> prevLongAvg \<and> shortAvg < longAvg then Some SELL
            else None))"

definition detectRSI :: "candle list \<Rightarrow> nat \<Rightarrow> opinion" where
  "detectRSI candles period =
     (if length candles < period + 1 then None
      else
        (let rsi = calculateRSI candles period
         in if rsi < 30 then Some BUY
            else if rsi > 70 then Some SELL
            else None))"

definition detectMACD :: "candle list \<Rightarrow> opinion" where
  "detectMACD candles =
     (if length candles < 26 then None
      else
        (let closes = map close candles;
             ema12 = calculateEMA closes 12;
             ema26 = calculateEMA closes 26;
             macd = ema12 - ema26;
             prevCloses = butlast closes;
             prevEMA12 = calculateEMA prevCloses 12;
             prevEMA26 = calculateEMA prevCloses 26;
             prevMACD = prevEMA12 - prevEMA26;
             signal = calculateEMA [macd] 9;
             prevSignal = calculateEMA [prevMACD] 9
         in if prevMACD \<le> prevSignal \<and> macd > signal then Some BUY
            else if prevMACD \<ge> prevSignal \<and> macd < signal then Some SELL
            else None))"

definition detectBollingerBands :: "candle list \<Rightarrow> nat \<Rightarrow> real \<Rightarrow> opinion" where
  "detectBollingerBands candles period deviation =
     (if length candles < period then None
      else
        (let closes = map close candles;
             lastPrice = last closes;
             sma = calculateMA closes period;
             std = calculateStdDev (slice_last period closes) sma;
             upperBand = sma + deviation * std;
             lowerBand = sma - deviation * std
         in if lastPrice \<le> lowerBand then Some BUY
            else if lastPrice \<ge> upperBand then Some SELL
            else None))"

section \<open>AIMarketAnalysisService and the route helper: the sibling RSI and ATR\<close>

definition AI_calculateRSI :: "real list \<Rightarrow> nat \<Rightarrow> real" where
  "AI_calculateRSI prices period =
     (if length prices < period + 1 then 50
      else
        (let changes = map (\<lambda>(p, prev). p - prev) (with_prev prices);
             gains = reduce_sum (filter (\<lambda>c. c > 0) changes);
             losses = \<bar>reduce_sum (filter (\<lambda>c. c < 0) changes)\<bar>;
             avgGain = gains / real period;
             avgLoss = losses / real period;
             rs = (if avgLoss = 0 then 100 else avgGain / avgLoss)
         in 100 - 100 / (1 + rs)))"

text \<open>
  The true range of a candle after the close before it, and of the first candle of an
  array (\<open>i === 0\<close> in the two \<open>candles.map\<close> variants).
\<close>

definition trueRange :: "candle \<Rightarrow> candle \<Rightarrow> real" where
  "trueRange c prev =
     max (high c - low c) (max \<bar>high c - close prev\<bar> \<bar>low c - close prev\<bar>)"

definition indexed_trs :: "candle list \<Rightarrow> real list" where
  "indexed_trs candles =
     (case candles of
        [] \<Rightarrow> []
      | c # cs \<Rightarrow> (high c - low c) # map (\<lambda>(x, prev). trueRange x prev) (with_prev candles))"

definition AI_calculateATR :: "candle list \<Rightarrow> nat \<Rightarrow> real" where
  "AI_calculateATR candles period =
     (if length candles < period then 0
      else reduce_sum (slice_last period (indexed_trs candles)) / real period)"

definition route_calculateATR :: "candle list \<Rightarrow> nat \<Rightarrow> real" where
  "route_calculateATR candles period =
     reduce_sum (slice_last period (indexed_trs candles)) / real period"

section \<open>UltimateStrategy\<close>

record ultimate_strategy_signal =
  symbol :: string
  instrumentToken :: nat
  signal :: opinion
  confidence :: real
  signals_matched :: "string list"
  timestamp :: nat
  price :: real
  target :: real
  stoploss :: real
  risk_reward_ratio :: real

definition minConfidenceThreshold :: real where
  "minConfidenceThreshold = 80"

definition analyzeVolume :: "candle list \<Rightarrow> opinion" where
  "analyzeVolume candles =
     (if length candles < 2 then None
      else
        (let lastCandle = last candles;
             avgVolume = reduce_sum (map volume (slice_last 10 candles)) / 10
         in if close lastCandle > open' lastCandle \<and> volume lastCandle > avgVolume * 1.5
            then Some BUY
            else if close lastCandle < open' lastCandle \<and> volume lastCandle > avgVolume * 1.5
            then Some SELL
            else None))"

definition analyzeTrendStrength :: "candle list \<Rightarrow> opinion" where
  "analyzeTrendStrength candles =
     (if length candles < 5 then None
      else
        (let lastCandles = slice_last 5 candles;
             higherHighs = length (filter (\<lambda>(c, prev). high c > high prev) (with_prev lastCandles));
             higherLows = length (filter (\<lambda>(c, prev). low c > low prev) (with_prev lastCandles));
             lowerHighs = length (filter (\<lambda>(c, prev). high c < high prev) (with_prev lastCandles));
             lowerLows = length (filter (\<lambda>(c, prev). low c < low prev) (with_prev lastCandles))
         in if higherHighs \<ge> 3 \<and> higherLows \<ge> 3 then Some BUY
            else if lowerHighs \<ge> 3 \<and> lowerLows \<ge> 3 then Some SELL
            else None))"

text \<open>
  \<open>Math.min(...xs)\<close> and \<open>Math.max(...xs)\<close> are only called on the last twenty closes of
  at least twenty candles, so on a non-empty array; the empty case (infinities in the
  source) is never reached and stands as \<open>0\<close>.
\<close>

definition Math_min :: "real list \<Rightarrow> real" where
  "Math_min xs = (case xs of [] \<Rightarrow> 0 | y # ys \<Rightarrow> foldl min y ys)"

definition Math_max :: "real list \<Rightarrow> real" where
  "Math_max xs = (case xs of [] \<Rightarrow> 0 | y # ys \<Rightarrow> foldl max y ys)"

definition analyzeSupportResistance :: "candle list \<Rightarrow> opinion" where
  "analyzeSupportResistance candles =
     (if length candles < 20 then None
      else
        (let closes = map close candles;
             minClose = Math_min (slice_last 20 closes);
             maxClose = Math_max (slice_last 20 closes);
             currentClose = last closes
         in if \<bar>currentClose - minClose\<bar> < (maxClose - minClose) * 0.05 then Some BUY
            else if \<bar>currentClose - maxClose\<bar> < (maxClose - minClose) * 0.05 then Some SELL
            else None))"

definition calculateATR :: "candle list \<Rightarrow> nat \<Rightarrow> real" where
  "calculateATR candles period =
     (if length candles < period then 0
      else
        (let trList = map (\<lambda>(c, prev). trueRange c prev) (with_prev candles)
         in reduce_sum (slice_last period trList) / real period))"

definition calculateRiskManagement :: "real \<Rightarrow> opinion \<Rightarrow> candle list \<Rightarrow> real \<times> real" where
  "calculateRiskManagement currentPrice sig candles =
     (let atr = calculateATR candles 14;
          riskFactor = 2
      in if sig = Some BUY then (currentPrice + atr * riskFactor, currentPrice - atr)
         else if sig = Some SELL then (currentPrice - atr * riskFactor, currentPrice + atr)
         else (0, 0))"

definition calculateRiskReward :: "real \<Rightarrow> real \<Rightarrow> real \<Rightarrow> real" where
  "calculateRiskReward currentPrice tgt sl =
     (if sl = 0 \<or> sl = currentPrice then 0
      else
        (let reward = \<bar>tgt - currentPrice\<bar>;
             risk = \<bar>currentPrice - sl\<bar>
         in reward / risk))"

text \<open>
  The signals object: its entries in the order of the object literal, which is the order
  \<open>Object.entries\<close> walks them in.
\<close>

type_synonym signals = "(string \<times> opinion) list"

definition runAllSignals :: "candle list \<Rightarrow> candle list \<Rightarrow> signals" where
  "runAllSignals candles1h candles15m =
     [(''maCrossover_1h'', detectMAcrossover candles1h 9 21),
      (''rsi_1h'', detectRSI candles1h 14),
      (''macd_1h'', detectMACD candles1h),
      (''bollingerBands_1h'', detectBollingerBands candles1h 20 2),
      (''maCrossover_15m'', detectMAcrossover candles15m 5 13),
      (''rsi_15m'', detectRSI candles15m 14),
      (''macd_15m'', detectMACD candles15m),
      (''volumeConfirmation'', analyzeVolume candles1h),
      (''trendStrength'', analyzeTrendStrength candles1h),
      (''srBounce'', analyzeSupportResistance candles1h)]"

text \<open>The loop of \<open>calculateConfidence\<close>: the two counters and the matched names.\<close>

fun countSignals :: "signals \<Rightarrow> nat \<times> nat \<times> string list \<Rightarrow> nat \<times> nat \<times> string list" where
  "countSignals [] acc = acc"
| "countSignals ((key, v) # rest) (buySignals, sellSignals, matchedSignals) =
     (if v = Some BUY then countSignals rest (buySignals + 1, sellSignals, matchedSignals @ [key])
      else if v = Some SELL then countSignals rest (buySignals, sellSignals + 1, matchedSignals @ [key])
      else countSignals rest (buySignals, sellSignals, matchedSignals))"

definition calculateConfidence :: "signals \<Rightarrow> real \<times> string list" where
  "calculateConfidence sigs =
     (case countSignals sigs (0, 0, []) of
        (buySignals, sellSignals, matchedSignals) \<Rightarrow>
          (let totalSignals = length sigs
           in (if buySignals > sellSignals then (real buySignals / real totalSignals) * 100
               else if sellSignals > buySignals then (real sellSignals / real totalSignals) * 100
               else 0,
               matchedSignals)))"

definition determineFinalSignal :: "signals \<Rightarrow> real \<Rightarrow> opinion" where
  "determineFinalSignal sigs conf =
     (if conf < minConfidenceThreshold then None
      else
        (case countSignals sigs (0, 0, []) of
           (buySignals, sellSignals, matchedSignals) \<Rightarrow>
             if buySignals > sellSignals then Some BUY
             else if sellSignals > buySignals then Some SELL
             else None))"

text \<open>
  The body of \<open>analyzeSymbol\<close> after its three gateway calls: from the two candle series
  and the quoted price to the returned signal. \<open>now\<close> is the clock read by \<open>new Date()\<close>.
\<close>

definition buildSignal ::
  "nat \<Rightarrow> string \<Rightarrow> nat \<Rightarrow> candle list \<Rightarrow> candle list \<Rightarrow> real \<Rightarrow> ultimate_strategy_signal" where
  "buildSignal token symb now candles1h candles15m currentPrice =
     (let sigs = runAllSignals candles1h candles15m;
          (conf, matchedSignals) = calculateConfidence sigs;
          finalSignal = determineFinalSignal sigs conf;
          (tgt, sl) = calculateRiskManagement currentPrice finalSignal candles1h;
          riskRewardRatio = calculateRiskReward currentPrice tgt sl
      in \<lparr>symbol = symb, instrumentToken = token, signal = finalSignal, confidence = conf,
          signals_matched = matchedSignals, timestamp = now, price = currentPrice,
          target = tgt, stoploss = sl, risk_reward_ratio = riskRewardRatio\<rparr>)"

section \<open>The market gateway (ZerodhaClient)\<close>

text \<open>
  The gateway is outside the program: each of its methods either resolves with a value or
  rejects with an error. It is modelled as a record of functions that answer a call from
  the calls made so far, so that two calls of one method may get different answers. The
  executor's state carries the log of the calls it has made.

  An \<open>async\<close> method of the program returns a result of type \<open>error + 'a\<close>: \<open>Inl e\<close> is a
  rejected promise (a thrown \<open>e\<close>), \<open>Inr v\<close> a resolved one.
\<close>

datatype error = GatewayError string | TradeNotFound string

datatype gateway_call =
    GetHistoricalData nat string
  | GetQuote "nat list"
  | PlaceBracketOrder string real side real real real
  | CancelOrder string
  | GetPositions

record position =
  instrument_token :: nat
  position_quantity :: real

record gateway =
  getHistoricalData :: "gateway_call list \<Rightarrow> nat \<Rightarrow> string \<Rightarrow> error + candle list"
  getQuote :: "gateway_call list \<Rightarrow> nat list \<Rightarrow> error + (nat \<Rightarrow> real option)"
  placeBracketOrder ::
    "gateway_call list \<Rightarrow> string \<Rightarrow> real \<Rightarrow> side \<Rightarrow> real \<Rightarrow> real \<Rightarrow> real \<Rightarrow> error + string"
  cancelOrder :: "gateway_call list \<Rightarrow> string \<Rightarrow> error + unit"
  getPositions :: "gateway_call list \<Rightarrow> error + position list"

text \<open>
  \<open>quote[instrumentToken]?.last_price || 0\<close>: the last price, or \<open>0\<close> when the quote has
  no entry for the token (a last price of \<open>0\<close> stays \<open>0\<close>).
\<close>

definition last_price_or_0 :: "(nat \<Rightarrow> real option) \<Rightarrow> nat \<Rightarrow> real" where
  "last_price_or_0 quote token = (case quote token of None \<Rightarrow> 0 | Some p \<Rightarrow> p)"

text \<open>
  \<open>analyzeSymbol\<close>: two candle queries and a quote, each of which may throw, then the pure
  analysis. Its \<open>quantity\<close> parameter is not read by the source and is left out.
\<close>

definition analyzeSymbol ::
  "gateway \<Rightarrow> nat \<Rightarrow> gateway_call list \<Rightarrow> nat \<Rightarrow> string
     \<Rightarrow> (error + ultimate_strategy_signal) \<times> gateway_call list" where
  "analyzeSymbol gw now hist token symb =
     (let log1 = hist @ [GetHistoricalData token ''hour'']
      in case getHistoricalData gw hist token ''hour'' of
           Inl e \<Rightarrow> (Inl e, log1)
         | Inr candles1h \<Rightarrow>
             (let log2 = log1 @ [GetHistoricalData token ''15minute'']
              in case getHistoricalData gw log1 token ''15minute'' of
                   Inl e \<Rightarrow> (Inl e, log2)
                 | Inr candles15m \<Rightarrow>
                     (let log3 = log2 @ [GetQuote [token]]
                      in case getQuote gw log2 [token] of
                           Inl e \<Rightarrow> (Inl e, log3)
                         | Inr quote \<Rightarrow>
                             (Inr (buildSignal token symb now candles1h candles15m
                                     (last_price_or_0 quote token)),
                              log3))))"

section \<open>AutomaticTradeExecutor\<close>

record automatic_trade_config =
  cfg_symbol :: string
  cfg_instrumentToken :: nat
  cfg_quantity :: real
  minConfidence :: real
  maxRiskPerTrade :: real
  maxOpenTrades :: nat

datatype trade_status = PENDING | EXECUTED | FILLED | CANCELLED | CLOSED

record executed_trade =
  t_id :: string
  t_symbol :: string
  t_type :: side
  entryPrice :: real
  quantity :: real
  t_target :: real
  t_stoploss :: real
  orderId :: string
  status :: trade_status
  t_confidence :: real
  createdAt :: nat
  closedAt :: "nat option"
  exitPrice :: "real option"
  pnl :: "real option"

text \<open>
  \<open>activeTrades\<close> is a JavaScript \<open>Map\<close>: insertion ordered, \<open>set\<close> on a present key
  replaces the value in place and on a new key appends, \<open>delete\<close> removes the entry. That is
  an association list under \<open>AList.update\<close> and \<open>AList.delete\<close>. A trade object is shared
  between the map and whoever holds a reference to it; an assignment to a field of a trade
  that is in the map is therefore an update of the map's entry.
\<close>

record executor =
  activeTrades :: "(string \<times> executed_trade) list"
  calls :: "gateway_call list"

text \<open>The decimal digits of \<open>Date.now()\<close> in a trade's id.\<close>

fun show_nat :: "nat \<Rightarrow> string" where
  "show_nat n =
     (if n < 10 then [''0123456789'' ! n]
      else show_nat (n div 10) @ [''0123456789'' ! (n mod 10)])"

declare show_nat.simps [simp del]

definition executeTrade ::
  "automatic_trade_config \<Rightarrow> gateway \<Rightarrow> nat \<Rightarrow> ultimate_strategy_signal \<Rightarrow> side \<Rightarrow> executor
     \<Rightarrow> (error + executed_trade) \<times> executor" where
  "executeTrade cfg gw now sg sd st =
     (let st1 = st\<lparr>calls := calls st @
                 [PlaceBracketOrder (symbol sg) (cfg_quantity cfg) sd (price sg) (target sg)
                    (stoploss sg)]\<rparr>
      in case placeBracketOrder gw (calls st) (symbol sg) (cfg_quantity cfg) sd (price sg)
                (target sg) (stoploss sg) of
           Inl e \<Rightarrow> (Inl e, st1)
         | Inr order_id \<Rightarrow>
             (let trade = \<lparr>t_id = symbol sg @ ''_'' @ show_nat now,
                           t_symbol = symbol sg,
                           t_type = sd,
                           entryPrice = price sg,
                           quantity = cfg_quantity cfg,
                           t_target = target sg,
                           t_stoploss = stoploss sg,
                           orderId = order_id,
                           status = EXECUTED,
                           t_confidence = confidence sg,
                           createdAt = now,
                           closedAt = None,
                           exitPrice = None,
                           pnl = None\<rparr>
              in (Inr trade,
                  st1\<lparr>activeTrades := AList.update (t_id trade) trade (activeTrades st1)\<rparr>)))"

definition executeTradeSignals ::
  "automatic_trade_config \<Rightarrow> gateway \<Rightarrow> nat \<Rightarrow> executor
     \<Rightarrow> (error + executed_trade option) \<times> executor" where
  "executeTradeSignals cfg gw now st =
     (if length (activeTrades st) \<ge> maxOpenTrades cfg then (Inr None, st)
      else
        (case analyzeSymbol gw now (calls st) (cfg_instrumentToken cfg) (cfg_symbol cfg) of
           (Inl e, hist) \<Rightarrow> (Inl e, st\<lparr>calls := hist\<rparr>)
         | (Inr sg, hist) \<Rightarrow>
             (case signal sg of
                None \<Rightarrow> (Inr None, st\<lparr>calls := hist\<rparr>)
              | Some sd \<Rightarrow>
                  if confidence sg < minConfidence cfg then (Inr None, st\<lparr>calls := hist\<rparr>)
                  else
                    (case executeTrade cfg gw now sg sd (st\<lparr>calls := hist\<rparr>) of
                       (Inl e, st') \<Rightarrow> (Inl e, st')
                     | (Inr trade, st') \<Rightarrow> (Inr (Some trade), st')))))"

text \<open>
  One round of the loop of \<open>monitorActiveTrades\<close>, for the entry \<open>(tradeId, trade)\<close>. The
  \<open>try\<close> around the body catches a failed \<open>getPositions\<close>, logs it and goes on to the next
  entry. The loop removes or changes only the entry it is visiting and adds none, so
  walking the live map visits the entries it held when the loop began, as they were then.
\<close>

definition monitorTrade ::
  "automatic_trade_config \<Rightarrow> gateway \<Rightarrow> nat \<Rightarrow> executor \<times> executed_trade list
     \<Rightarrow> string \<times> executed_trade \<Rightarrow> executor \<times> executed_trade list" where
  "monitorTrade cfg gw now acc entry =
     (case (acc, entry) of
        ((st, closedTrades), (tradeId, trade)) \<Rightarrow>
          (let st1 = st\<lparr>calls := calls st @ [GetPositions]\<rparr>
           in case getPositions gw (calls st) of
                Inl e \<Rightarrow> (st1, closedTrades)
              | Inr positions \<Rightarrow>
                  (case find (\<lambda>p. instrument_token p = cfg_instrumentToken cfg) positions of
                     None \<Rightarrow>
                       (st1\<lparr>activeTrades := AList.delete tradeId (activeTrades st1)\<rparr>,
                        closedTrades @ [trade\<lparr>status := CLOSED, closedAt := Some now\<rparr>])
                   | Some position \<Rightarrow>
                       if position_quantity position = 0
                       then (st1\<lparr>activeTrades :=
                                   AList.update tradeId (trade\<lparr>status := FILLED\<rparr>)
                                     (activeTrades st1)\<rparr>,
                             closedTrades)
                       else (st1, closedTrades))))"

definition monitorActiveTrades ::
  "automatic_trade_config \<Rightarrow> gateway \<Rightarrow> nat \<Rightarrow> executor
     \<Rightarrow> (error + executed_trade list) \<times> executor" where
  "monitorActiveTrades cfg gw now st =
     (case foldl (monitorTrade cfg gw now) (st, []) (activeTrades st) of
        (st', closedTrades) \<Rightarrow> (Inr closedTrades, st'))"

definition getActiveTrades :: "executor \<Rightarrow> executed_trade list" where
  "getActiveTrades st = map snd (activeTrades st)"

text \<open>
  \<open>closeTrade\<close> assigns the four fields of the trade (an object of the map) before it asks
  the gateway to cancel the order, and deletes the entry after.
\<close>

definition closeTrade ::
  "automatic_trade_config \<Rightarrow> gateway \<Rightarrow> nat \<Rightarrow> string \<Rightarrow> executor
     \<Rightarrow> (error + bool) \<times> executor" where
  "closeTrade cfg gw now tradeId st =
     (case map_of (activeTrades st) tradeId of
        None \<Rightarrow> (Inl (TradeNotFound tradeId), st)
      | Some trade \<Rightarrow>
          (let st1 = st\<lparr>calls := calls st @ [GetQuote [cfg_instrumentToken cfg]]\<rparr>
           in case getQuote gw (calls st) [cfg_instrumentToken cfg] of
                Inl e \<Rightarrow> (Inl e, st1)
              | Inr quote \<Rightarrow>
                  (let exit_price = last_price_or_0 quote (cfg_instrumentToken cfg);
                       profit = (if t_type trade = BUY
                                 then (exit_price - entryPrice trade) * quantity trade
                                 else (entryPrice trade - exit_price) * quantity trade);
                       trade' = trade\<lparr>status := CLOSED, exitPrice := Some exit_price,
                                       pnl := Some profit, closedAt := Some now\<rparr>;
                       st2 = st1\<lparr>activeTrades := AList.update tradeId trade' (activeTrades st1),
                                  calls := calls st1 @ [CancelOrder (orderId trade')]\<rparr>
                   in case cancelOrder gw (calls st1) (orderId trade') of
                        Inl e \<Rightarrow> (Inl e, st2)
                      | Inr ack \<Rightarrow>
                          (Inr True,
                           st2\<lparr>activeTrades := AList.delete tradeId (activeTrades st2)\<rparr>))))"

text \<open>\<open>if (trade.pnl)\<close> holds for a \<open>pnl\<close> that is set and not \<open>0\<close>.\<close>

definition calculateTotalPnL :: "executor \<Rightarrow> real" where
  "calculateTotalPnL st =
     foldl (\<lambda>totalPnL (tradeId, trade).
               case pnl trade of
                 None \<Rightarrow> totalPnL
               | Some p \<Rightarrow> if p \<noteq> 0 then totalPnL + p else totalPnL)
       0 (activeTrades st)"

text \<open>
  \<open>getStatistics\<close>. The source formats \<open>winRate\<close>, \<open>totalPnL\<close> and \<open>avgConfidence\<close> with
  \<open>toFixed(2)\<close>; the record holds the numbers that are formatted.
\<close>

record statistics =
  activeTradesCount :: nat
  closedTradesCount :: nat
  profitableTradesCount :: nat
  winRate :: real
  totalPnL :: real
  avgConfidence :: real

definition getStatistics :: "executor \<Rightarrow> statistics" where
  "getStatistics st =
     (let trades = map snd (activeTrades st);
          closedTrades = filter (\<lambda>t. status t = CLOSED) trades;
          profitableTrades =
            filter (\<lambda>t. case pnl t of None \<Rightarrow> False | Some p \<Rightarrow> p \<noteq> 0 \<and> p > 0) closedTrades;
          total = calculateTotalPnL st;
          win_rate = (if length closedTrades > 0
                      then (real (length profitableTrades) / real (length closedTrades)) * 100
                      else 0);
          avg_confidence = (if length trades > 0
                            then foldl (\<lambda>sum t. sum + t_confidence t) 0 trades / real (length trades)
                            else 0)
      in \<lparr>activeTradesCount = length (filter (\<lambda>t. status t \<noteq> CLOSED) trades),
          closedTradesCount = length closedTrades,
          profitableTradesCount = length profitableTrades,
          winRate = win_rate,
          totalPnL = total,
          avgConfidence = avg_confidence\<rparr>)"

section \<open>OptionsTradeService: the Greeks\<close>

text \<open>
  In \<open>calculateGreeks\<close> a divisor can be zero, and a logarithm or a square root can be taken
  outside its domain, so here a number is a real or one of the three special values of a
  double, and the arithmetic of the source is written out on them: the operators \<open>+\<close>,
  \<open>-\<close>, \<open>*\<close>, \<open>/\<close> and the functions of \<open>Math\<close> that the service calls. The sign of a
  zero is not kept: a zero divisor counts as \<open>+0\<close>. The parameters of \<open>calculateGreeks\<close>
  are finite.
\<close>

datatype number = Num real | PosInfinity | NegInfinity | NaN

fun js_neg :: "number \<Rightarrow> number" where
  "js_neg (Num a) = Num (- a)"
| "js_neg PosInfinity = NegInfinity"
| "js_neg NegInfinity = PosInfinity"
| "js_neg NaN = NaN"

fun js_add :: "number \<Rightarrow> number \<Rightarrow> number" where
  "js_add NaN y = NaN"
| "js_add x NaN = NaN"
| "js_add (Num a) (Num b) = Num (a + b)"
| "js_add (Num a) y = y"
| "js_add x (Num b) = x"
| "js_add PosInfinity PosInfinity = PosInfinity"
| "js_add NegInfinity NegInfinity = NegInfinity"
| "js_add PosInfinity NegInfinity = NaN"
| "js_add NegInfinity PosInfinity = NaN"

definition js_sub :: "number \<Rightarrow> number \<Rightarrow> number" where
  "js_sub x y = js_add x (js_neg y)"

fun js_mul :: "number \<Rightarrow> number \<Rightarrow> number" where
  "js_mul NaN y = NaN"
| "js_mul x NaN = NaN"
| "js_mul (Num a) (Num b) = Num (a * b)"
| "js_mul (Num a) y = (if a = 0 then NaN else if a > 0 then y else js_neg y)"
| "js_mul x (Num b) = (if b = 0 then NaN else if b > 0 then x else js_neg x)"
| "js_mul PosInfinity y = y"
| "js_mul NegInfinity y = js_neg y"

fun js_div :: "number \<Rightarrow> number \<Rightarrow> number" where
  "js_div NaN y = NaN"
| "js_div x NaN = NaN"
| "js_div (Num a) (Num b) =
     (if b \<noteq> 0 then Num (a / b)
      else if a = 0 then NaN
      else if a > 0 then PosInfinity
      else NegInfinity)"
| "js_div (Num a) y = Num 0"
| "js_div x (Num b) = (if b \<ge> 0 then x else js_neg x)"
| "js_div x y = NaN"

fun Math_log :: "number \<Rightarrow> number" where
  "Math_log (Num x) = (if x > 0 then Num (ln x) else if x = 0 then NegInfinity else NaN)"
| "Math_log PosInfinity = PosInfinity"
| "Math_log NegInfinity = NaN"
| "Math_log NaN = NaN"

fun Math_sqrt :: "number \<Rightarrow> number" where
  "Math_sqrt (Num x) = (if x \<ge> 0 then Num (sqrt x) else NaN)"
| "Math_sqrt PosInfinity = PosInfinity"
| "Math_sqrt NegInfinity = NaN"
| "Math_sqrt NaN = NaN"

fun Math_exp :: "number \<Rightarrow> number" where
  "Math_exp (Num x) = Num (exp x)"
| "Math_exp PosInfinity = PosInfinity"
| "Math_exp NegInfinity = Num 0"
| "Math_exp NaN = NaN"

fun Math_abs :: "number \<Rightarrow> number" where
  "Math_abs (Num x) = Num \<bar>x\<bar>"
| "Math_abs PosInfinity = PosInfinity"
| "Math_abs NegInfinity = PosInfinity"
| "Math_abs NaN = NaN"

text \<open>\<open>Math.round\<close> rounds to the nearest integer, a half upwards.\<close>

fun Math_round :: "number \<Rightarrow> number" where
  "Math_round (Num x) = Num (of_int \<lfloor>x + 1 / 2\<rfloor>)"
| "Math_round x = x"

text \<open>\<open>x >= 0\<close>; a comparison with \<open>NaN\<close> is false.\<close>

fun js_ge0 :: "number \<Rightarrow> bool" where
  "js_ge0 (Num x) = (x \<ge> 0)"
| "js_ge0 PosInfinity = True"
| "js_ge0 NegInfinity = False"
| "js_ge0 NaN = False"

datatype option_type = CE | PE

record greeks =
  delta :: number
  gamma :: number
  theta :: number
  vega :: number
  rho :: number

definition normalDistribution :: "number \<Rightarrow> number" where
  "normalDistribution x =
     (let t = js_div (Num 1) (js_add (Num 1) (js_mul (Num 0.2316419) (Math_abs x)));
          d = js_mul (Num 0.3989423) (Math_exp (js_div (js_mul (js_neg x) x) (Num 2)));
          prob =
            js_mul (js_mul d t)
              (js_add (Num 0.319381530)
                 (js_mul t
                    (js_add (Num (- 0.356563782))
                       (js_mul t
                          (js_add (Num 1.781477937)
                             (js_mul t
                                (js_add (Num (- 1.821255978))
                                   (js_mul t (Num 1.330274429)))))))))
      in if js_ge0 x then js_sub (Num 1) prob else prob)"

definition calculateGreeks ::
  "real \<Rightarrow> real \<Rightarrow> real \<Rightarrow> real \<Rightarrow> real \<Rightarrow> option_type \<Rightarrow> greeks" where
  "calculateGreeks spotPrice strikePrice timeToExpiry volatility riskFreeRate optionType =
     (let T = js_div (Num timeToExpiry) (Num 365);
          sigma = js_div (Num volatility) (Num 100);
          r = Num riskFreeRate;
          S = Num spotPrice;
          K = Num strikePrice;
          sqrtT = Math_sqrt T;
          d1 = js_div
                 (js_add (Math_log (js_div S K))
                    (js_mul (js_add r (js_div (js_mul sigma sigma) (Num 2))) T))
                 (js_mul sigma sqrtT);
          d2 = js_sub d1 (js_mul sigma sqrtT);
          N_d1 = normalDistribution d1;
          N_d2 = normalDistribution d2;
          n_d1 = js_mul (js_div (Num 1) (Math_sqrt (js_mul (Num 2) (Num pi))))
                   (Math_exp (js_div (js_neg (js_mul d1 d1)) (Num 2)));
          discount = Math_exp (js_mul (js_neg r) T);
          decay = js_div (js_neg (js_mul (js_mul S n_d1) sigma)) (js_mul (Num 2) sqrtT);
          delta_raw = (if optionType = CE then N_d1 else js_sub N_d1 (Num 1));
          gamma_raw = js_div n_d1 (js_mul (js_mul S sigma) sqrtT);
          theta_raw =
            (if optionType = CE
             then js_div (js_sub decay (js_mul (js_mul (js_mul r K) discount) N_d2)) (Num 365)
             else js_div
                    (js_add decay
                       (js_mul (js_mul (js_mul r K) discount) (js_sub (Num 1) N_d2)))
                    (Num 365));
          vega_raw = js_div (js_mul (js_mul S n_d1) sqrtT) (Num 100);
          rho_raw =
            (if optionType = CE
             then js_div (js_mul (js_mul (js_mul K T) discount) N_d2) (Num 100)
             else js_div
                    (js_mul (js_mul (js_mul (js_neg K) T) discount) (js_sub (Num 1) N_d2))
                    (Num 100))
      in \<lparr>delta = js_div (Math_round (js_mul delta_raw (Num 100))) (Num 100),
          gamma = js_div (Math_round (js_mul gamma_raw (Num 10000))) (Num 10000),
          theta = js_div (Math_round (js_mul theta_raw (Num 100))) (Num 100),
          vega = js_div (Math_round (js_mul vega_raw (Num 100))) (Num 100),
          rho = js_div (Math_round (js_mul rho_raw (Num 100))) (Num 100)\<rparr>)"

section \<open>Definitions that follow the specification's words\<close>

text \<open>
  The consensus counts of the specification: the number of indicators that say \<open>BUY\<close>,
  the number that say \<open>SELL\<close>, and the count of the majority direction.
\<close>

definition buyCount :: "signals \<Rightarrow> nat" where
  "buyCount sigs = length (filter (\<lambda>(key, v). v = Some BUY) sigs)"

definition sellCount :: "signals \<Rightarrow> nat" where
  "sellCount sigs = length (filter (\<lambda>(key, v). v = Some SELL) sigs)"

definition majorityCount :: "signals \<Rightarrow> nat" where
  "majorityCount sigs = max (buyCount sigs) (sellCount sigs)"

text \<open>
  The MACD detector as the specification words it: the MACD line is \<open>EMA12 - EMA26\<close> of
  the closes, its history is the MACD line after each close, and the signal line is the
  EMA9 of that history. The crossing test is the one of the source.
\<close>

definition macdLine :: "real list \<Rightarrow> real" where
  "macdLine closes = calculateEMA closes 12 - calculateEMA closes 26"

definition macdHistory :: "real list \<Rightarrow> real list" where
  "macdHistory closes = map (\<lambda>k. macdLine (take k closes)) [1..<length closes + 1]"

definition macdSignal :: "real list \<Rightarrow> real" where
  "macdSignal closes = calculateEMA (macdHistory closes) 9"

definition spec_detectMACD :: "candle list \<Rightarrow> opinion" where
  "spec_detectMACD candles =
     (if length candles < 26 then None
      else
        (let closes = map close candles;
             prevCloses = butlast closes
         in if macdLine prevCloses \<le> macdSignal prevCloses \<and> macdLine closes > macdSignal closes
            then Some BUY
            else if macdLine prevCloses \<ge> macdSignal prevCloses \<and> macdLine closes < macdSignal closes
            then Some SELL
            else None))"



text \<open>A number that lies in a closed interval; the special values lie in none.\<close>

definition between :: "real \<Rightarrow> real \<Rightarrow> number \<Rightarrow> bool" where
  "between lo hi x = (case x of Num v \<Rightarrow> lo \<le> v \<and> v \<le> hi | _ \<Rightarrow> False)"

text \<open>
  On a real argument \<open>normalDistribution\<close> and the \<open>d1\<close> of \<open>calculateGreeks\<close> are these
  real functions (lemmas \<open>normalDistribution_Num\<close> and \<open>delta_of_valid_inputs\<close>).
\<close>

definition tail_poly :: "real \<Rightarrow> real" where
  "tail_poly t =
     0.319381530 + t * (- 0.356563782 + t * (1.781477937 + t * (- 1.821255978 + t * 1.330274429)))"

definition tail_prob :: "real \<Rightarrow> real" where
  "tail_prob x =
     0.3989423 * exp (- x * x / 2) * (1 / (1 + 0.2316419 * \<bar>x\<bar>)) *
       tail_poly (1 / (1 + 0.2316419 * \<bar>x\<bar>))"

definition real_d1 :: "real \<Rightarrow> real \<Rightarrow> real \<Rightarrow> real \<Rightarrow> real \<Rightarrow> real" where
  "real_d1 spotPrice strikePrice timeToExpiry volatility riskFreeRate =
     (ln (spotPrice / strikePrice) +
      (riskFreeRate + volatility / 100 * (volatility / 100) / 2) * (timeToExpiry / 365)) /
     (volatility / 100 * sqrt (timeToExpiry / 365))"

section \<open>Example inputs\<close>

definition mk :: "real \<Rightarrow> real \<Rightarrow> real \<Rightarrow> real \<Rightarrow> real \<Rightarrow> candle" where
  "mk o' h l c v = \<lparr>open' = o', high = h, low = l, close = c, volume = v\<rparr>"

text \<open>
  Twenty-two hourly candles and fifteen quarter-hour candles on which eight of the ten
  indicators say \<open>BUY\<close> (the two MACD detectors say nothing), with an ATR(14) of \<open>2\<close>:
  a fall from 120 to 100, a long flat stretch, a step up to 101, four candles of rising
  highs and lows, and a last candle that opens far lower, closes above its open and
  trades ten times the usual volume.
\<close>

definition buy_candles1h :: "candle list" where
  "buy_candles1h =
     [mk 120 121 119 120 100,
      mk 100 100.75 99.25 100 100, mk 100 100.75 99.25 100 100, mk 100 100.75 99.25 100 100,
      mk 100 100.75 99.25 100 100, mk 100 100.75 99.25 100 100, mk 100 100.75 99.25 100 100,
      mk 100 100.75 99.25 100 100, mk 100 100.75 99.25 100 100, mk 100 100.75 99.25 100 100,
      mk 100 100.75 99.25 100 100, mk 100 100.75 99.25 100 100, mk 100 100.75 99.25 100 100,
      mk 100 101.5 99.5 101 100,
      mk 101 101.5 100 101 100, mk 101 101.5 100 101 100, mk 101 101.5 100 101 100,
      mk 101 101.5 100 101 100, mk 101 101.6 100.1 101 100, mk 101 101.7 100.2 101 100,
      mk 101 101.8 100.3 101 100,
      mk 93 93.5 93 93.5 1000]"

definition buy_candles15m :: "candle list" where
  "buy_candles15m =
     [mk 100 100 100 100 100, mk 60 60 60 60 100, mk 10 10 10 10 100, mk 10 10 10 10 100,
      mk 10 10 10 10 100, mk 10 10 10 10 100, mk 10 10 10 10 100, mk 10 10 10 10 100,
      mk 10 10 10 10 100, mk 10 10 10 10 100, mk 10 10 10 10 100, mk 10 10 10 10 100,
      mk 10 10 10 10 100, mk 10 10 10 10 100, mk 11 11 11 11 100]"

text \<open>The same two series mirrored at 100: eight indicators say \<open>SELL\<close>.\<close>

definition mirror :: "candle \<Rightarrow> candle" where
  "mirror c = \<lparr>open' = 200 - open' c, high = 200 - low c, low = 200 - high c,
                close = 200 - close c, volume = volume c\<rparr>"

definition sell_candles1h :: "candle list" where
  "sell_candles1h = map mirror buy_candles1h"

definition sell_candles15m :: "candle list" where
  "sell_candles15m = map mirror buy_candles15m"

text \<open>
  Five hourly candles with rising highs and lows whose last candle falls on heavy volume:
  the trend says \<open>BUY\<close>, the volume says \<open>SELL\<close>, the other eight say nothing.
\<close>

definition tie_candles1h :: "candle list" where
  "tie_candles1h =
     [mk 10 11 9 10 100, mk 10 12 10 11 100, mk 11 13 11 12 100, mk 12 14 12 13 100,
      mk 15 15 13.5 14 1000]"

text \<open>Fifteen candles whose closes rise by one each: no close is below the one before.\<close>

definition rising_candles :: "candle list" where
  "rising_candles =
     [mk 1 1 1 1 100, mk 2 2 2 2 100, mk 3 3 3 3 100, mk 4 4 4 4 100, mk 5 5 5 5 100,
      mk 6 6 6 6 100, mk 7 7 7 7 100, mk 8 8 8 8 100, mk 9 9 9 9 100, mk 10 10 10 10 100,
      mk 11 11 11 11 100, mk 12 12 12 12 100, mk 13 13 13 13 100, mk 14 14 14 14 100,
      mk 15 15 15 15 100]"

text \<open>Fourteen equal candles of range \<open>2\<close>, and the two candles of a period of \<open>2\<close>.\<close>

definition flat_candles14 :: "candle list" where
  "flat_candles14 = replicate 14 (mk 100 101 99 100 100)"

definition two_candles :: "candle list" where
  "two_candles = [mk 9 10 8 9 100, mk 9 12 9 11 100]"

text \<open>Twenty-six closes of 10 and a last close of 11.\<close>

definition macd_candles :: "candle list" where
  "macd_candles = replicate 26 (mk 10 10 10 10 100) @ [mk 10 11 10 11 100]"

text \<open>
  A gateway that answers every call: the hourly and the quarter-hour candles, one last
  price for every token asked, the order reference \<open>ORD1\<close>, an acknowledgement, and a
  list of positions. And gateways that fail: one that rejects every call, one that
  rejects only the cancellation of an order, one that rejects only the placing of one,
  one that rejects only the quarter-hour candle query, one that rejects only the quote.
\<close>

definition scripted_gateway :: "candle list \<Rightarrow> candle list \<Rightarrow> real \<Rightarrow> position list \<Rightarrow> gateway" where
  "scripted_gateway candles1h candles15m last_price positions =
     \<lparr>getHistoricalData =
        (\<lambda>hist token interval. Inr (if interval = ''hour'' then candles1h else candles15m)),
      getQuote =
        (\<lambda>hist tokens. Inr (\<lambda>token. if token \<in> set tokens then Some last_price else None)),
      placeBracketOrder = (\<lambda>hist s q sd p tg sl. Inr ''ORD1''),
      cancelOrder = (\<lambda>hist order_id. Inr ()),
      getPositions = (\<lambda>hist. Inr positions)\<rparr>"


definition cancel_fails_gateway :: "real \<Rightarrow> gateway" where
  "cancel_fails_gateway last_price =
     (scripted_gateway buy_candles1h buy_candles15m last_price [])
       \<lparr>cancelOrder := (\<lambda>hist order_id. Inl (GatewayError ''ETIMEDOUT''))\<rparr>"




definition example_config :: automatic_trade_config where
  "example_config =
     \<lparr>cfg_symbol = ''INFY'', cfg_instrumentToken = 408065, cfg_quantity = 1, minConfidence = 80,
      maxRiskPerTrade = 2, maxOpenTrades = 3\<rparr>"

definition empty_executor :: executor where
  "empty_executor = \<lparr>activeTrades = [], calls = []\<rparr>"

text \<open>
  The trade that the executor opens at time \<open>5\<close> on the \<open>BUY\<close> candles at a last price of
  \<open>100\<close>, and the executor's state after it.
\<close>

definition example_trade :: executed_trade where
  "example_trade =
     \<lparr>t_id = ''INFY_5'', t_symbol = ''INFY'', t_type = BUY, entryPrice = 100, quantity = 1,
      t_target = 104, t_stoploss = 98, orderId = ''ORD1'', status = EXECUTED,
      t_confidence = 80, createdAt = 5, closedAt = None, exitPrice = None, pnl = None\<rparr>"

definition one_trade_executor :: executor where
  "one_trade_executor =
     \<lparr>activeTrades = [(''INFY_5'', example_trade)],
      calls = [GetHistoricalData 408065 ''hour'', GetHistoricalData 408065 ''15minute'',
               GetQuote [408065],
               PlaceBracketOrder ''INFY'' 1 BUY 100 104 98]\<rparr>"

section \<open>The indicators on the example inputs\<close>

lemmas array_defs = slice_last_def reduce_sum_def with_prev_def mk_def

lemma detectMACD_None: "detectMACD candles = None"
  by (simp add: detectMACD_def calculateEMA_def Let_def)

lemma buy1h_ATR: "calculateATR buy_candles1h 14 = 2"
  by (simp add: calculateATR_def trueRange_def buy_candles1h_def array_defs)

lemma buy1h_MA: "detectMAcrossover buy_candles1h 9 21 = Some BUY"
  by (simp add: detectMAcrossover_def calculateMA_def buy_candles1h_def array_defs)

lemma buy1h_RSI: "detectRSI buy_candles1h 14 = Some BUY"
  by (simp add: detectRSI_def calculateRSI_def buy_candles1h_def array_defs)

lemma buy1h_volume: "analyzeVolume buy_candles1h = Some BUY"
  by (simp add: analyzeVolume_def buy_candles1h_def array_defs)

lemma buy1h_trend: "analyzeTrendStrength buy_candles1h = Some BUY"
  by (simp add: analyzeTrendStrength_def buy_candles1h_def array_defs)

lemma buy1h_sr: "analyzeSupportResistance buy_candles1h = Some BUY"
  by (simp add: analyzeSupportResistance_def Math_min_def Math_max_def buy_candles1h_def array_defs)

lemma sqrt_variance_bound: "sqrt (4011 / 1600) \<le> 8 / 5"
  by (rule real_le_lsqrt) (simp_all add: power2_eq_square)

lemma buy1h_bollinger: "detectBollingerBands buy_candles1h 20 2 = Some BUY"
proof -
  have sma: "calculateMA (map close buy_candles1h) 20 = 4003 / 40"
    by (simp add: calculateMA_def buy_candles1h_def array_defs)
  have std: "calculateStdDev (slice_last 20 (map close buy_candles1h)) (4003 / 40) = sqrt (4011 / 1600)"
    by (simp add: calculateStdDev_def buy_candles1h_def array_defs power2_eq_square)
  have lst: "last (map close buy_candles1h) = 187 / 2"
    by (simp add: buy_candles1h_def mk_def)
  have len: "\<not> length buy_candles1h < 20"
    by (simp add: buy_candles1h_def)
  show ?thesis
    using sqrt_variance_bound by (simp add: detectBollingerBands_def sma std lst len Let_def)
qed

lemma buy15m_MA: "detectMAcrossover buy_candles15m 5 13 = Some BUY"
  by (simp add: detectMAcrossover_def calculateMA_def buy_candles15m_def array_defs)

lemma buy15m_RSI: "detectRSI buy_candles15m 14 = Some BUY"
  by (simp add: detectRSI_def calculateRSI_def buy_candles15m_def array_defs)

lemma buy_signals:
  "runAllSignals buy_candles1h buy_candles15m =
     [(''maCrossover_1h'', Some BUY), (''rsi_1h'', Some BUY), (''macd_1h'', None),
      (''bollingerBands_1h'', Some BUY), (''maCrossover_15m'', Some BUY),
      (''rsi_15m'', Some BUY), (''macd_15m'', None), (''volumeConfirmation'', Some BUY),
      (''trendStrength'', Some BUY), (''srBounce'', Some BUY)]"
  by (simp add: runAllSignals_def detectMACD_None buy1h_MA buy1h_RSI buy1h_bollinger
      buy15m_MA buy15m_RSI buy1h_volume buy1h_trend buy1h_sr)

lemma sell1h_ATR: "calculateATR sell_candles1h 14 = 2"
  by (simp add: calculateATR_def trueRange_def sell_candles1h_def mirror_def buy_candles1h_def array_defs)

lemma sell1h_MA: "detectMAcrossover sell_candles1h 9 21 = Some SELL"
  by (simp add: detectMAcrossover_def calculateMA_def sell_candles1h_def mirror_def buy_candles1h_def array_defs)

lemma sell1h_RSI: "detectRSI sell_candles1h 14 = Some SELL"
  by (simp add: detectRSI_def calculateRSI_def sell_candles1h_def mirror_def buy_candles1h_def array_defs)

lemma sell1h_volume: "analyzeVolume sell_candles1h = Some SELL"
  by (simp add: analyzeVolume_def sell_candles1h_def mirror_def buy_candles1h_def array_defs)

lemma sell1h_trend: "analyzeTrendStrength sell_candles1h = Some SELL"
  by (simp add: analyzeTrendStrength_def sell_candles1h_def mirror_def buy_candles1h_def array_defs)

lemma sell1h_sr: "analyzeSupportResistance sell_candles1h = Some SELL"
  by (simp add: analyzeSupportResistance_def Math_min_def Math_max_def sell_candles1h_def mirror_def buy_candles1h_def array_defs)

lemma sell1h_bollinger: "detectBollingerBands sell_candles1h 20 2 = Some SELL"
proof -
  have sma: "calculateMA (map close sell_candles1h) 20 = 3997 / 40"
    by (simp add: calculateMA_def sell_candles1h_def mirror_def buy_candles1h_def array_defs)
  have std: "calculateStdDev (slice_last 20 (map close sell_candles1h)) (3997 / 40) = sqrt (4011 / 1600)"
    by (simp add: calculateStdDev_def sell_candles1h_def mirror_def buy_candles1h_def array_defs power2_eq_square)
  have lst: "last (map close sell_candles1h) = 213 / 2"
    by (simp add: sell_candles1h_def mirror_def buy_candles1h_def mk_def)
  have len: "\<not> length sell_candles1h < 20"
    by (simp add: sell_candles1h_def buy_candles1h_def)
  have nonneg: "3 / 2 \<le> sqrt (4011 / 1600 :: real)"
    by (rule real_le_rsqrt) (simp add: power2_eq_square)
  show ?thesis
    using sqrt_variance_bound nonneg by (simp add: detectBollingerBands_def sma std lst len Let_def)
qed

lemma sell15m_MA: "detectMAcrossover sell_candles15m 5 13 = Some SELL"
  by (simp add: detectMAcrossover_def calculateMA_def sell_candles15m_def mirror_def buy_candles15m_def array_defs)

lemma sell15m_RSI: "detectRSI sell_candles15m 14 = Some SELL"
  by (simp add: detectRSI_def calculateRSI_def sell_candles15m_def mirror_def buy_candles15m_def array_defs)

lemma sell_signals:
  "runAllSignals sell_candles1h sell_candles15m =
     [(''maCrossover_1h'', Some SELL), (''rsi_1h'', Some SELL), (''macd_1h'', None),
      (''bollingerBands_1h'', Some SELL), (''maCrossover_15m'', Some SELL),
      (''rsi_15m'', Some SELL), (''macd_15m'', None), (''volumeConfirmation'', Some SELL),
      (''trendStrength'', Some SELL), (''srBounce'', Some SELL)]"
  by (simp add: runAllSignals_def detectMACD_None sell1h_MA sell1h_RSI sell1h_bollinger
      sell15m_MA sell15m_RSI sell1h_volume sell1h_trend sell1h_sr)

lemma tie_signals:
  "runAllSignals tie_candles1h [] =
     [(''maCrossover_1h'', None), (''rsi_1h'', None), (''macd_1h'', None),
      (''bollingerBands_1h'', None), (''maCrossover_15m'', None),
      (''rsi_15m'', None), (''macd_15m'', None), (''volumeConfirmation'', Some SELL),
      (''trendStrength'', Some BUY), (''srBounce'', None)]"
  by (simp add: runAllSignals_def detectMACD_None detectMAcrossover_def detectRSI_def
      detectBollingerBands_def analyzeVolume_def analyzeTrendStrength_def
      analyzeSupportResistance_def tie_candles1h_def array_defs)

lemma tie1h_ATR: "calculateATR tie_candles1h 14 = 0"
  by (simp add: calculateATR_def tie_candles1h_def)

lemma buy_build:
  "buildSignal token symb now buy_candles1h buy_candles15m p =
     \<lparr>symbol = symb, instrumentToken = token, signal = Some BUY, confidence = 80,
      signals_matched = [''maCrossover_1h'', ''rsi_1h'', ''bollingerBands_1h'',
        ''maCrossover_15m'', ''rsi_15m'', ''volumeConfirmation'', ''trendStrength'', ''srBounce''],
      timestamp = now, price = p, target = p + 4, stoploss = p - 2,
      risk_reward_ratio = calculateRiskReward p (p + 4) (p - 2)\<rparr>"
  by (simp add: buildSignal_def buy_signals calculateConfidence_def determineFinalSignal_def
      minConfidenceThreshold_def calculateRiskManagement_def buy1h_ATR)

lemma sell_build:
  "buildSignal token symb now sell_candles1h sell_candles15m p =
     \<lparr>symbol = symb, instrumentToken = token, signal = Some SELL, confidence = 80,
      signals_matched = [''maCrossover_1h'', ''rsi_1h'', ''bollingerBands_1h'',
        ''maCrossover_15m'', ''rsi_15m'', ''volumeConfirmation'', ''trendStrength'', ''srBounce''],
      timestamp = now, price = p, target = p - 4, stoploss = p + 2,
      risk_reward_ratio = calculateRiskReward p (p - 4) (p + 2)\<rparr>"
  by (simp add: buildSignal_def sell_signals calculateConfidence_def determineFinalSignal_def
      minConfidenceThreshold_def calculateRiskManagement_def sell1h_ATR)

lemma tie_build:
  "buildSignal token symb now tie_candles1h [] p =
     \<lparr>symbol = symb, instrumentToken = token, signal = None, confidence = 0,
      signals_matched = [''volumeConfirmation'', ''trendStrength''],
      timestamp = now, price = p, target = 0, stoploss = 0, risk_reward_ratio = 0\<rparr>"
  by (simp add: buildSignal_def tie_signals calculateConfidence_def determineFinalSignal_def
      minConfidenceThreshold_def calculateRiskManagement_def calculateRiskReward_def)

section \<open>The lifecycle on the example inputs\<close>

lemma show_nat_5: "show_nat 5 = ''5''"
  by (simp add: show_nat.simps)

lemma buy_analyze:
  "analyzeSymbol (scripted_gateway buy_candles1h buy_candles15m p ps) now hist token symb =
     (Inr (buildSignal token symb now buy_candles1h buy_candles15m p),
      hist @ [GetHistoricalData token ''hour'', GetHistoricalData token ''15minute'',
              GetQuote [token]])"
  by (simp add: analyzeSymbol_def scripted_gateway_def last_price_or_0_def)

lemma rr_100: "calculateRiskReward 100 104 98 = 2"
  by (simp add: calculateRiskReward_def)

lemma execute_example:
  "executeTradeSignals example_config (scripted_gateway buy_candles1h buy_candles15m 100 ps) 5
     empty_executor = (Inr (Some example_trade), one_trade_executor)"
proof -
  have placed:
    "placeBracketOrder (scripted_gateway buy_candles1h buy_candles15m 100 ps) hist s q sd p tg sl
       = Inr ''ORD1''" for hist s q sd p tg sl
    by (simp add: scripted_gateway_def)
  show ?thesis
    by (simp add: executeTradeSignals_def example_config_def empty_executor_def buy_analyze
        buy_build executeTrade_def show_nat_5 rr_100 placed example_trade_def
        one_trade_executor_def Let_def)
qed

lemma monitor_example:
  "monitorActiveTrades example_config (scripted_gateway buy_candles1h buy_candles15m 100 []) 9
     one_trade_executor =
     (Inr [example_trade\<lparr>status := CLOSED, closedAt := Some 9\<rparr>],
      \<lparr>activeTrades = [], calls = calls one_trade_executor @ [GetPositions]\<rparr>)"
  by (simp add: monitorActiveTrades_def monitorTrade_def one_trade_executor_def
      scripted_gateway_def example_config_def)

lemma close_example:
  "closeTrade example_config (scripted_gateway buy_candles1h buy_candles15m 110 []) 9 ''INFY_5''
     one_trade_executor =
     (Inr True,
      \<lparr>activeTrades = [],
       calls = calls one_trade_executor @ [GetQuote [408065], CancelOrder ''ORD1'']\<rparr>)"
  by (simp add: closeTrade_def one_trade_executor_def scripted_gateway_def example_config_def
      last_price_or_0_def example_trade_def)

lemma close_cancel_fails_example:
  "closeTrade example_config (cancel_fails_gateway 110) 9 ''INFY_5'' one_trade_executor =
     (Inl (GatewayError ''ETIMEDOUT''),
      \<lparr>activeTrades =
         [(''INFY_5'', example_trade\<lparr>status := CLOSED, exitPrice := Some 110,
                         pnl := Some 10, closedAt := Some 9\<rparr>)],
       calls = calls one_trade_executor @ [GetQuote [408065], CancelOrder ''ORD1'']\<rparr>)"
  by (simp add: closeTrade_def one_trade_executor_def scripted_gateway_def example_config_def
      last_price_or_0_def example_trade_def cancel_fails_gateway_def)

lemma stats_empty:
  "getStatistics \<lparr>activeTrades = [], calls = cs\<rparr> =
     \<lparr>activeTradesCount = 0, closedTradesCount = 0, profitableTradesCount = 0, winRate = 0,
      totalPnL = 0, avgConfidence = 0\<rparr>"
  by (simp add: getStatistics_def calculateTotalPnL_def)


lemma monitor_resolves: "\<exists>closedTrades. fst (monitorActiveTrades cfg gw now st) = Inr closedTrades"
  by (simp add: monitorActiveTrades_def split: prod.splits)











section \<open>The consensus and the risk levels in general\<close>

lemma countSignals_counts:
  "countSignals sigs (b, s, m) =
     (b + buyCount sigs, s + sellCount sigs,
      m @ map fst (filter (\<lambda>(key, v). v = Some BUY \<or> v = Some SELL) sigs))"
  by (induction sigs arbitrary: b s m) (auto simp: buyCount_def sellCount_def)

lemma calculateConfidence_counts:
  "fst (calculateConfidence sigs) =
     (if buyCount sigs > sellCount sigs then real (buyCount sigs) / real (length sigs) * 100
      else if sellCount sigs > buyCount sigs then real (sellCount sigs) / real (length sigs) * 100
      else 0)"
  by (simp add: calculateConfidence_def countSignals_counts)

lemma determineFinalSignal_counts:
  "determineFinalSignal sigs conf =
     (if conf < minConfidenceThreshold then None
      else if buyCount sigs > sellCount sigs then Some BUY
      else if sellCount sigs > buyCount sigs then Some SELL
      else None)"
  by (simp add: determineFinalSignal_def countSignals_counts)

lemma buildSignal_confidence:
  "confidence (buildSignal token symb now candles1h candles15m p) =
     fst (calculateConfidence (runAllSignals candles1h candles15m))"
  by (simp add: buildSignal_def Let_def split: prod.splits)

lemma buildSignal_signal:
  "signal (buildSignal token symb now candles1h candles15m p) =
     determineFinalSignal (runAllSignals candles1h candles15m)
       (fst (calculateConfidence (runAllSignals candles1h candles15m)))"
  by (simp add: buildSignal_def Let_def split: prod.splits)

lemma buildSignal_levels:
  "(target (buildSignal token symb now candles1h candles15m p),
    stoploss (buildSignal token symb now candles1h candles15m p)) =
     calculateRiskManagement p (signal (buildSignal token symb now candles1h candles15m p)) candles1h"
  by (simp add: buildSignal_def Let_def split: prod.splits)

lemma buildSignal_risk_reward:
  "risk_reward_ratio (buildSignal token symb now candles1h candles15m p) =
     calculateRiskReward p (target (buildSignal token symb now candles1h candles15m p))
       (stoploss (buildSignal token symb now candles1h candles15m p))"
  by (simp add: buildSignal_def Let_def split: prod.splits)

lemma buildSignal_price: "price (buildSignal token symb now candles1h candles15m p) = p"
  by (simp add: buildSignal_def Let_def split: prod.splits)

lemma runAllSignals_length: "length (runAllSignals candles1h candles15m) = 10"
  by (simp add: runAllSignals_def)


section \<open>The delta of the Greeks on real arguments\<close>

lemma normalDistribution_Num:
  "normalDistribution (Num x) = Num (if x \<ge> 0 then 1 - tail_prob x else tail_prob x)"
proof -
  have "0 \<le> 0.2316419 * \<bar>x\<bar>"
    by simp
  then have "1 + 0.2316419 * \<bar>x\<bar> \<noteq> 0"
    by linarith
  then show ?thesis
    by (simp add: normalDistribution_def js_sub_def Let_def tail_prob_def tail_poly_def)
qed

lemma tail_poly_bounds:
  assumes "0 \<le> t" and "t \<le> 1"
  shows "0 \<le> tail_poly t" and "tail_poly t \<le> 5 / 2"
proof -
  define q where "q = 1.781477937 + t * (- 1.821255978 + t * 1.330274429)"
  have sq1: "0 \<le> (t - 0.68) * (t - 0.68)"
    by simp
  have q_low: "1 \<le> q"
    using sq1 assms unfolding q_def by (simp add: algebra_simps)
  have "t * (- 1.821255978 + t * 1.330274429) \<le> 0"
    using assms by (intro mult_nonneg_nonpos) simp_all
  then have q_high: "q \<le> 1.781477937"
    unfolding q_def by simp
  have tt: "0 \<le> t * t" "t * t \<le> 1"
    using assms by (simp_all add: mult_le_one)
  have low: "t * t * 1 \<le> t * t * q"
    using q_low tt(1) by (intro mult_left_mono) simp_all
  have high: "t * t * q \<le> t * t * 1.781477937"
    using q_high tt(1) by (intro mult_left_mono) simp_all
  have poly: "tail_poly t = 0.319381530 - 0.356563782 * t + t * t * q"
    unfolding tail_poly_def q_def by (simp add: algebra_simps)
  have sq2: "0 \<le> (t - 0.2) * (t - 0.2)"
    by simp
  show "0 \<le> tail_poly t"
    using low sq2 assms unfolding poly by (simp add: algebra_simps)
  show "tail_poly t \<le> 5 / 2"
    using high tt assms unfolding poly by (simp add: algebra_simps)
qed

lemma tail_prob_bounds: "0 \<le> tail_prob x" "tail_prob x \<le> 1"
proof -
  define t where "t = 1 / (1 + 0.2316419 * \<bar>x\<bar>)"
  define d where "d = 0.3989423 * exp (- x * x / 2)"
  have den: "1 \<le> 1 + 0.2316419 * \<bar>x\<bar>"
    by simp
  have t: "0 \<le> t" "t \<le> 1"
    using den unfolding t_def by (simp_all add: divide_le_eq)
  have "0 \<le> x * x"
    by (rule zero_le_square)
  then have "- x * x / 2 \<le> 0"
    by simp
  then have "exp (- x * x / 2) \<le> 1"
    by (simp only: exp_le_one_iff)
  then have d: "0 \<le> d" "d \<le> 0.3989423"
    unfolding d_def by simp_all
  have p: "0 \<le> tail_poly t" "tail_poly t \<le> 5 / 2"
    using t by (rule tail_poly_bounds)+
  have prob: "tail_prob x = d * t * tail_poly t"
    by (simp add: tail_prob_def d_def t_def)
  have dt0: "0 \<le> d * t"
    using d(1) t(1) by (rule mult_nonneg_nonneg)
  have dt1: "d * t \<le> 0.3989423 * 1"
    by (rule mult_mono [OF d(2) t(2)]) (use t(1) in simp_all)
  note dt = dt0 dt1
  show "0 \<le> tail_prob x"
    unfolding prob using dt(1) p(1) by (rule mult_nonneg_nonneg)
  have "d * t * tail_poly t \<le> (0.3989423 * 1) * (5 / 2)"
    by (rule mult_mono [OF dt1 p(2)]) (use p(1) in simp_all)
  then show "tail_prob x \<le> 1"
    unfolding prob by simp
qed

lemma normalDistribution_range:
  "\<exists>n. normalDistribution (Num x) = Num n \<and> 0 \<le> n \<and> n \<le> 1"
  using tail_prob_bounds [of x] by (simp add: normalDistribution_Num)

lemma delta_of_valid_inputs:
  assumes "0 < spotPrice" and "0 < strikePrice" and "0 < timeToExpiry" and "0 < volatility"
  shows "delta (calculateGreeks spotPrice strikePrice timeToExpiry volatility riskFreeRate
                  optionType) =
           js_div
             (Math_round
                (js_mul
                   (if optionType = CE
                    then normalDistribution
                           (Num (real_d1 spotPrice strikePrice timeToExpiry volatility
                                   riskFreeRate))
                    else js_sub
                           (normalDistribution
                              (Num (real_d1 spotPrice strikePrice timeToExpiry volatility
                                      riskFreeRate)))
                           (Num 1))
                   (Num 100)))
             (Num 100)"
proof -
  have ratio: "0 < spotPrice / strikePrice" and strike: "strikePrice \<noteq> 0"
    using assms by simp_all
  have root: "0 < sqrt (timeToExpiry / 365)"
    using assms by simp
  have divisor: "volatility / 100 * sqrt (timeToExpiry / 365) \<noteq> 0"
    using assms root by simp
  have days: "0 \<le> timeToExpiry / 365"
    using assms by simp
  show ?thesis
    using ratio strike divisor days
    by (simp add: calculateGreeks_def Let_def real_d1_def)
qed

lemma round_percent:
  assumes "0 \<le> n" and "n \<le> 1"
  shows "0 \<le> (of_int \<lfloor>n * 100 + 1 / 2\<rfloor> :: real) / 100"
    and "(of_int \<lfloor>n * 100 + 1 / 2\<rfloor> :: real) / 100 \<le> 1"
    and "(of_int \<lfloor>(n - 1) * 100 + 1 / 2\<rfloor> :: real) / 100 =
           of_int \<lfloor>n * 100 + 1 / 2\<rfloor> / 100 - 1"
proof -
  have "0 \<le> \<lfloor>n * 100 + 1 / 2\<rfloor>"
    using assms by simp
  then show "0 \<le> (of_int \<lfloor>n * 100 + 1 / 2\<rfloor> :: real) / 100"
    by simp
  have "n * 100 + 1 / 2 < 101"
    using assms by simp
  then have "\<lfloor>n * 100 + 1 / 2\<rfloor> < 101"
    by (simp add: floor_less_iff)
  then have "\<lfloor>n * 100 + 1 / 2\<rfloor> \<le> 100"
    by simp
  then have "(of_int \<lfloor>n * 100 + 1 / 2\<rfloor> :: real) \<le> 100"
    by (metis of_int_le_iff of_int_numeral)
  then show "(of_int \<lfloor>n * 100 + 1 / 2\<rfloor> :: real) / 100 \<le> 1"
    by simp
  have "(n - 1) * 100 + 1 / 2 = (n * 100 + 1 / 2) - of_int 100"
    by (simp add: algebra_simps)
  then have "\<lfloor>(n - 1) * 100 + 1 / 2\<rfloor> = \<lfloor>n * 100 + 1 / 2\<rfloor> - 100"
    by (simp only: floor_diff_of_int)
  then show "(of_int \<lfloor>(n - 1) * 100 + 1 / 2\<rfloor> :: real) / 100 =
      of_int \<lfloor>n * 100 + 1 / 2\<rfloor> / 100 - 1"
    by (simp add: diff_divide_distrib)
qed

section \<open>The claims\<close>

text \<open>
  C10. Closing a trade whose id is not a key of the active-trade map throws
  \<open>Trade <id> not found\<close> (the promise rejects; it does not resolve with \<open>false\<close>), and the
  executor is left as it was: the same active trades, and no gateway call logged, so
  neither a quote was fetched nor an order cancelled.
\<close>

theorem closeTrade_unknown_trade:
  "tradeId \<notin> fst ` set (activeTrades st) \<Longrightarrow>
     closeTrade cfg gw now tradeId st = (Inl (TradeNotFound tradeId), st)"
proof -
  assume "tradeId \<notin> fst ` set (activeTrades st)"
  then have "map_of (activeTrades st) tradeId = None"
    by (simp add: map_of_eq_None_iff)
  then show ?thesis
    by (simp add: closeTrade_def)
qed

text \<open>
  The executor holds the trade \<open>INFY_5\<close>; closing \<open>INFY_6\<close> throws and changes nothing,
  here against a gateway that would answer the quote.
\<close>

theorem closeTrade_unknown_trade_witness:
  "''INFY_6'' \<notin> fst ` set (activeTrades one_trade_executor) \<and>
   closeTrade example_config (scripted_gateway buy_candles1h buy_candles15m 110 []) 9 ''INFY_6''
     one_trade_executor = (Inl (TradeNotFound ''INFY_6''), one_trade_executor)"
proof -
  have absent: "''INFY_6'' \<notin> fst ` set (activeTrades one_trade_executor)"
    by (simp add: one_trade_executor_def)
  show ?thesis
    using absent
      closeTrade_unknown_trade [OF absent, of example_config
        "scripted_gateway buy_candles1h buy_candles15m 110 []" 9]
    by simp
qed

text \<open>
  C1. The claim: on every analysis run the confidence is the count of the majority
  direction over the ten indicators, times 100, and the direction is none on a tie and
  below the threshold of 80. Read with the majority count as the larger of the two
  counts, this fails on a tie of one or more against as many: \<open>calculateConfidence\<close>
  leaves the confidence at \<open>0\<close> there. As amended: the ten indicators are always
  evaluated; when the two counts differ the confidence is the larger count over ten, times
  100; on a tie the confidence is \<open>0\<close> and the direction none; and below the threshold,
  which is 80, the direction is none.
\<close>

theorem consensus_confidence:
  "let sigs = runAllSignals candles1h candles15m;
       r = buildSignal token symb now candles1h candles15m p
   in length sigs = 10 \<and>
      (buyCount sigs \<noteq> sellCount sigs \<longrightarrow>
         confidence r = real (majorityCount sigs) / real (length sigs) * 100) \<and>
      (buyCount sigs = sellCount sigs \<longrightarrow> confidence r = 0 \<and> signal r = None) \<and>
      (confidence r < minConfidenceThreshold \<longrightarrow> signal r = None) \<and>
      minConfidenceThreshold = 80"
  by (auto simp: Let_def runAllSignals_length buildSignal_confidence buildSignal_signal
      calculateConfidence_counts determineFinalSignal_counts majorityCount_def max_def
      minConfidenceThreshold_def)

text \<open>
  On the \<open>BUY\<close> candles the counts are eight against none and the confidence is 80; on
  the tie candles they are one against one, the confidence is \<open>0\<close>, below the threshold,
  and the direction is none.
\<close>

theorem consensus_confidence_witness:
  "buyCount (runAllSignals buy_candles1h buy_candles15m) \<noteq>
     sellCount (runAllSignals buy_candles1h buy_candles15m) \<and>
   majorityCount (runAllSignals buy_candles1h buy_candles15m) = 8 \<and>
   confidence (buildSignal 408065 ''INFY'' 5 buy_candles1h buy_candles15m 100) = 8 / 10 * 100 \<and>
   buyCount (runAllSignals tie_candles1h []) = sellCount (runAllSignals tie_candles1h []) \<and>
   confidence (buildSignal 408065 ''INFY'' 5 tie_candles1h [] 100) < minConfidenceThreshold \<and>
   confidence (buildSignal 408065 ''INFY'' 5 tie_candles1h [] 100) = 0 \<and>
   signal (buildSignal 408065 ''INFY'' 5 tie_candles1h [] 100) = None"
proof -
  have buy: "buyCount (runAllSignals buy_candles1h buy_candles15m) = 8"
    "sellCount (runAllSignals buy_candles1h buy_candles15m) = 0"
    by (simp_all add: buy_signals buyCount_def sellCount_def)
  have tie: "buyCount (runAllSignals tie_candles1h []) = 1"
    "sellCount (runAllSignals tie_candles1h []) = 1"
    by (simp_all add: tie_signals buyCount_def sellCount_def)
  show ?thesis
    using consensus_confidence [of buy_candles1h buy_candles15m 408065 "''INFY''" 5 100]
      consensus_confidence [of tie_candles1h "[]" 408065 "''INFY''" 5 100]
    by (simp add: Let_def buy tie majorityCount_def)
qed

text \<open>
  The tie: five hourly candles and no quarter-hour candles. One indicator says \<open>BUY\<close>,
  one says \<open>SELL\<close>, so the majority count over the ten indicators, times 100, is 10; the
  returned confidence is \<open>0\<close>.
\<close>

theorem consensus_confidence_counterexample:
  "buyCount (runAllSignals tie_candles1h []) = 1 \<and>
   sellCount (runAllSignals tie_candles1h []) = 1 \<and>
   real (majorityCount (runAllSignals tie_candles1h [])) /
     real (length (runAllSignals tie_candles1h [])) * 100 = 10 \<and>
   confidence (buildSignal 408065 ''INFY'' 5 tie_candles1h [] 100) = 0 \<and>
   confidence (buildSignal 408065 ''INFY'' 5 tie_candles1h [] 100) \<noteq>
     real (majorityCount (runAllSignals tie_candles1h [])) /
       real (length (runAllSignals tie_candles1h [])) * 100"
  by (simp add: tie_signals tie_build buyCount_def sellCount_def majorityCount_def)

text \<open>
  C7. The claim: for a final direction \<open>BUY\<close> the target is the price plus twice the
  ATR(14) of the hourly candles and the stoploss the price minus that ATR (mirrored for
  \<open>SELL\<close>), and the risk-reward ratio is \<open>|target - price| / |price - stoploss|\<close>, being
  \<open>0\<close> when the stoploss equals the price. The levels are as claimed. The ratio is not
  always: \<open>calculateRiskReward\<close> also returns \<open>0\<close> when the stoploss is \<open>0\<close>, which for a
  \<open>BUY\<close> is the case when the price equals the ATR. As amended: the ratio is the quotient
  when the stoploss is neither \<open>0\<close> nor the price, and \<open>0\<close> when the stoploss is \<open>0\<close> or
  the price.
\<close>

theorem risk_levels:
  "let r = buildSignal token symb now candles1h candles15m p;
       atr = calculateATR candles1h 14
   in price r = p \<and>
      (signal r = Some BUY \<longrightarrow> target r = p + 2 * atr \<and> stoploss r = p - atr) \<and>
      (signal r = Some SELL \<longrightarrow> target r = p - 2 * atr \<and> stoploss r = p + atr) \<and>
      (stoploss r \<noteq> 0 \<and> stoploss r \<noteq> p \<longrightarrow>
         risk_reward_ratio r = \<bar>target r - p\<bar> / \<bar>p - stoploss r\<bar>) \<and>
      (stoploss r = 0 \<or> stoploss r = p \<longrightarrow> risk_reward_ratio r = 0)"
proof -
  define r where "r = buildSignal token symb now candles1h candles15m p"
  define atr where "atr = calculateATR candles1h 14"
  have levels: "(target r, stoploss r) = calculateRiskManagement p (signal r) candles1h"
    unfolding r_def by (rule buildSignal_levels)
  have rr: "risk_reward_ratio r = calculateRiskReward p (target r) (stoploss r)"
    unfolding r_def by (rule buildSignal_risk_reward)
  have buy: "signal r = Some BUY \<longrightarrow> target r = p + 2 * atr \<and> stoploss r = p - atr"
    using levels by (auto simp: calculateRiskManagement_def atr_def Let_def)
  have sell: "signal r = Some SELL \<longrightarrow> target r = p - 2 * atr \<and> stoploss r = p + atr"
    using levels by (auto simp: calculateRiskManagement_def atr_def Let_def)
  have ratio: "stoploss r \<noteq> 0 \<and> stoploss r \<noteq> p \<longrightarrow>
      risk_reward_ratio r = \<bar>target r - p\<bar> / \<bar>p - stoploss r\<bar>"
    by (simp add: rr calculateRiskReward_def)
  have zero: "stoploss r = 0 \<or> stoploss r = p \<longrightarrow> risk_reward_ratio r = 0"
    by (auto simp: rr calculateRiskReward_def)
  have "price r = p"
    unfolding r_def by (rule buildSignal_price)
  with buy sell ratio zero show ?thesis
    unfolding Let_def r_def [symmetric] atr_def [symmetric] by blast
qed

text \<open>
  The scenario of the specification: a \<open>BUY\<close> at a price of 100 on candles whose ATR is 2
  has target 104, stoploss 98 and ratio 2. The mirrored candles give a \<open>SELL\<close> with target
  96, stoploss 102 and ratio 2. On the tie candles there is no direction, both levels are
  \<open>0\<close> and so is the ratio.
\<close>

theorem risk_levels_witness:
  "calculateATR buy_candles1h 14 = 2 \<and>
   signal (buildSignal 408065 ''INFY'' 5 buy_candles1h buy_candles15m 100) = Some BUY \<and>
   target (buildSignal 408065 ''INFY'' 5 buy_candles1h buy_candles15m 100) = 104 \<and>
   stoploss (buildSignal 408065 ''INFY'' 5 buy_candles1h buy_candles15m 100) = 98 \<and>
   risk_reward_ratio (buildSignal 408065 ''INFY'' 5 buy_candles1h buy_candles15m 100) = 2 \<and>
   calculateATR sell_candles1h 14 = 2 \<and>
   signal (buildSignal 408065 ''INFY'' 5 sell_candles1h sell_candles15m 100) = Some SELL \<and>
   target (buildSignal 408065 ''INFY'' 5 sell_candles1h sell_candles15m 100) = 96 \<and>
   stoploss (buildSignal 408065 ''INFY'' 5 sell_candles1h sell_candles15m 100) = 102 \<and>
   risk_reward_ratio (buildSignal 408065 ''INFY'' 5 sell_candles1h sell_candles15m 100) = 2 \<and>
   stoploss (buildSignal 408065 ''INFY'' 5 tie_candles1h [] 100) = 0 \<and>
   risk_reward_ratio (buildSignal 408065 ''INFY'' 5 tie_candles1h [] 100) = 0"
proof -
  have buy: "signal (buildSignal 408065 ''INFY'' 5 buy_candles1h buy_candles15m 100) = Some BUY"
    by (simp add: buy_build)
  have sell: "signal (buildSignal 408065 ''INFY'' 5 sell_candles1h sell_candles15m 100) = Some SELL"
    by (simp add: sell_build)
  have tie: "stoploss (buildSignal 408065 ''INFY'' 5 tie_candles1h [] 100) = 0"
    by (simp add: tie_build)
  show ?thesis
    using risk_levels [of 408065 "''INFY''" 5 buy_candles1h buy_candles15m 100]
      risk_levels [of 408065 "''INFY''" 5 sell_candles1h sell_candles15m 100]
      risk_levels [of 408065 "''INFY''" 5 tie_candles1h "[]" 100]
    by (simp add: Let_def buy sell tie buy1h_ATR sell1h_ATR)
qed

text \<open>
  The same \<open>BUY\<close> candles at a last price of 2, the ATR: the direction is \<open>BUY\<close>, the
  target 6 and the stoploss \<open>0\<close>, so \<open>|target - price| / |price - stoploss|\<close> is 2; the
  returned ratio is \<open>0\<close>.
\<close>

theorem risk_levels_counterexample:
  "signal (buildSignal 408065 ''INFY'' 5 buy_candles1h buy_candles15m 2) = Some BUY \<and>
   price (buildSignal 408065 ''INFY'' 5 buy_candles1h buy_candles15m 2) = 2 \<and>
   target (buildSignal 408065 ''INFY'' 5 buy_candles1h buy_candles15m 2) = 6 \<and>
   stoploss (buildSignal 408065 ''INFY'' 5 buy_candles1h buy_candles15m 2) = 0 \<and>
   risk_reward_ratio (buildSignal 408065 ''INFY'' 5 buy_candles1h buy_candles15m 2) = 0 \<and>
   \<bar>target (buildSignal 408065 ''INFY'' 5 buy_candles1h buy_candles15m 2) -
      price (buildSignal 408065 ''INFY'' 5 buy_candles1h buy_candles15m 2)\<bar> /
     \<bar>price (buildSignal 408065 ''INFY'' 5 buy_candles1h buy_candles15m 2) -
        stoploss (buildSignal 408065 ''INFY'' 5 buy_candles1h buy_candles15m 2)\<bar> = 2"
  by (simp add: buy_build calculateRiskReward_def)




text \<open>
  C2. The claim: a trade opened by \<open>executeTradeSignals\<close> starts as \<open>EXECUTED\<close>; when the
  monitor finds no position for it, the trade becomes \<open>CLOSED\<close> with \<open>closedAt\<close> set, its
  \<open>pnl\<close> is computed from the exit price, and it leaves the active set and is returned.
  The code does all of this but the \<open>pnl\<close>: the monitor sets only \<open>status\<close> and
  \<open>closedAt\<close>, where \<open>closeTrade\<close> sets \<open>exitPrice\<close> and \<open>pnl\<close> too. Here the executor
  opens the trade \<open>INFY_5\<close> at time 5; at time 9 the gateway reports no position; the
  monitor returns the trade closed at 9 with neither \<open>pnl\<close> nor \<open>exitPrice\<close>, and the
  active set is empty.
\<close>

theorem monitor_close_sets_no_pnl:
  "executeTradeSignals example_config (scripted_gateway buy_candles1h buy_candles15m 100 []) 5
     empty_executor = (Inr (Some example_trade), one_trade_executor) \<and>
   status example_trade = EXECUTED \<and>
   fst (monitorActiveTrades example_config
          (scripted_gateway buy_candles1h buy_candles15m 100 []) 9 one_trade_executor) =
     Inr [example_trade\<lparr>status := CLOSED, closedAt := Some 9\<rparr>] \<and>
   activeTrades (snd (monitorActiveTrades example_config
          (scripted_gateway buy_candles1h buy_candles15m 100 []) 9 one_trade_executor)) = [] \<and>
   pnl (example_trade\<lparr>status := CLOSED, closedAt := Some 9\<rparr>) = None \<and>
   exitPrice (example_trade\<lparr>status := CLOSED, closedAt := Some 9\<rparr>) = None"
  by (simp add: execute_example monitor_example) (simp add: example_trade_def)

text \<open>
  C4. The claim: on at least 26 candles the MACD detector says \<open>BUY\<close> exactly when the
  MACD line was at or below its signal line, the EMA9 of the history of the MACD line, on
  the window before and is above it now (\<open>SELL\<close> mirrored). The source takes the EMA9 of
  the one-element array \<open>[macd]\<close>, which is \<open>macd\<close> itself, so the line never differs from
  its signal and the detector never fires. On 26 closes of 10 and a last close of 11 the
  MACD line moves from \<open>0\<close>, on a signal line of \<open>0\<close>, to above its signal line: the
  detector as specified says \<open>BUY\<close>, the source says nothing.
\<close>

theorem macd_crossing_missed:
  "length macd_candles = 27 \<and>
   macdLine (butlast (map close macd_candles)) = 0 \<and>
   macdSignal (butlast (map close macd_candles)) = 0 \<and>
   macdLine (map close macd_candles) = 28 / 351 \<and>
   macdSignal (map close macd_candles) = 28 / 1755 \<and>
   spec_detectMACD macd_candles = Some BUY \<and>
   detectMACD macd_candles = None"
proof -
  have closes: "map close macd_candles =
      [10, 10, 10, 10, 10, 10, 10, 10, 10, 10, 10, 10, 10, 10, 10, 10, 10, 10, 10, 10, 10, 10,
       10, 10, 10, 10, 11]"
    by (simp add: macd_candles_def mk_def eval_nat_numeral)
  have history: "macdHistory
      [10, 10, 10, 10, 10, 10, 10, 10, 10, 10, 10, 10, 10, 10, 10, 10, 10, 10, 10, 10, 10, 10,
       10, 10, 10, 10, 11] = replicate 26 0 @ [28 / 351]"
    by (simp add: macdHistory_def macdLine_def calculateEMA_def eval_nat_numeral)
  have prev_history: "macdHistory
      [10, 10, 10, 10, 10, 10, 10, 10, 10, 10, 10, 10, 10, 10, 10, 10, 10, 10, 10, 10, 10, 10,
       10, 10, 10, 10] = replicate 26 0"
    by (simp add: macdHistory_def macdLine_def calculateEMA_def eval_nat_numeral)
  have line: "macdLine (map close macd_candles) = 28 / 351"
    by (simp add: closes macdLine_def calculateEMA_def)
  have prev_line: "macdLine (butlast (map close macd_candles)) = 0"
    by (simp add: closes macdLine_def calculateEMA_def)
  have sig: "macdSignal (map close macd_candles) = 28 / 1755"
    by (simp add: closes macdSignal_def history calculateEMA_def eval_nat_numeral)
  have prev_sig: "macdSignal (butlast (map close macd_candles)) = 0"
    by (simp add: closes macdSignal_def prev_history calculateEMA_def eval_nat_numeral)
  have len: "length macd_candles = 27"
    by (simp add: macd_candles_def)
  have "spec_detectMACD macd_candles = Some BUY"
    by (simp add: spec_detectMACD_def len line prev_line sig prev_sig Let_def)
  then show ?thesis
    by (simp add: len line prev_line sig prev_sig detectMACD_None)
qed

text \<open>
  C5. The claim: on a close series without a fall (average loss \<open>0\<close>) and with enough
  history the RSI is 100. On fifteen closes that rise by one each, with period 14,
  \<open>SignalDetectionService.calculateRSI\<close> sets \<open>rs\<close> to \<open>0\<close> and returns an RSI of \<open>0\<close>, on
  which \<open>detectRSI\<close> says \<open>BUY\<close> (oversold); \<open>AIMarketAnalysisService.calculateRSI\<close> sets
  \<open>rs\<close> to 100 and returns \<open>100 - 100 / 101\<close>.
\<close>

theorem rsi_without_losses:
  "length rising_candles = 15 \<and>
   filter (\<lambda>c. c < 0) (map (\<lambda>(c, prev). c - prev) (with_prev (map close rising_candles))) = [] \<and>
   calculateRSI rising_candles 14 = 0 \<and>
   detectRSI rising_candles 14 = Some BUY \<and>
   AI_calculateRSI (map close rising_candles) 14 = 100 - 100 / 101"
  by (simp add: calculateRSI_def detectRSI_def AI_calculateRSI_def rising_candles_def
      array_defs)

text \<open>
  C6. The claim: the ATR is never negative, and it is \<open>0\<close> whenever there are at most
  \<open>period\<close> candles. \<open>UltimateStrategy.calculateATR\<close> returns \<open>0\<close> only for fewer than
  \<open>period\<close> candles: on fourteen candles of range 2, at period 14, it averages the thirteen
  true ranges it has over 14 and returns \<open>13 / 7\<close>; on the two candles of the
  specification's scenario, at period 2, it returns \<open>3 / 2\<close>. The siblings do no better:
  \<open>AIMarketAnalysisService.calculateATR\<close> returns 2 on the fourteen candles, and the
  route's \<open>calculateATR\<close>, which has no guard, returns \<open>1 / 7\<close> on a single candle.
\<close>

theorem atr_on_period_candles:
  "length flat_candles14 = 14 \<and>
   calculateATR flat_candles14 14 = 13 / 7 \<and>
   length two_candles = 2 \<and>
   calculateATR two_candles 2 = 3 / 2 \<and>
   AI_calculateATR flat_candles14 14 = 2 \<and>
   route_calculateATR [mk 100 101 99 100 100] 14 = 1 / 7"
  by (simp add: calculateATR_def AI_calculateATR_def route_calculateATR_def indexed_trs_def
      trueRange_def flat_candles14_def two_candles_def array_defs eval_nat_numeral)

text \<open>
  C8. The claim: the statistics give the win rate over all trades ever closed, the average
  confidence over active and closed trades, and the sum of every recorded \<open>pnl\<close>.
  \<open>getStatistics\<close> reads only the active-trade map, from which \<open>closeTrade\<close> and the monitor
  delete every trade they close. Here the trade \<open>INFY_5\<close>, bought at 100 with confidence
  80, is closed at a last price of 110, a profit of 10: the statistics after it count no
  closed trade and give a win rate, a total and an average confidence of \<open>0\<close>. The same
  holds after the monitor has closed the trade.
\<close>

theorem statistics_forget_closed_trades:
  "fst (closeTrade example_config (scripted_gateway buy_candles1h buy_candles15m 110 []) 9
          ''INFY_5'' one_trade_executor) = Inr True \<and>
   (110 - entryPrice example_trade) * quantity example_trade = 10 \<and>
   t_confidence example_trade = 80 \<and>
   getStatistics
     (snd (closeTrade example_config (scripted_gateway buy_candles1h buy_candles15m 110 []) 9
             ''INFY_5'' one_trade_executor)) =
     \<lparr>activeTradesCount = 0, closedTradesCount = 0, profitableTradesCount = 0, winRate = 0,
      totalPnL = 0, avgConfidence = 0\<rparr> \<and>
   getStatistics
     (snd (monitorActiveTrades example_config
             (scripted_gateway buy_candles1h buy_candles15m 100 []) 9 one_trade_executor)) =
     \<lparr>activeTradesCount = 0, closedTradesCount = 0, profitableTradesCount = 0, winRate = 0,
      totalPnL = 0, avgConfidence = 0\<rparr>"
  by (simp add: close_example monitor_example stats_empty) (simp add: example_trade_def)

text \<open>
  C9. The claim: for all pricing inputs the call delta lies in \<open>[0, 1]\<close>, the put delta in
  \<open>[-1, 0]\<close>, and the call delta minus the put delta is 1 within \<open>1e-6\<close>.
  \<open>calculateGreeks\<close> divides by \<open>sigma * Math.sqrt(T)\<close> without a guard. With no days left
  to expiry and the spot at the strike, the dividend \<open>Math.log(1) + (r + sigma * sigma / 2) * 0\<close>
  and the divisor are both \<open>0\<close>, so \<open>d1\<close> is \<open>NaN\<close>, and so are its normal distribution,
  both deltas and their difference: neither delta lies in its interval.
\<close>

theorem greeks_delta_at_expiry:
  "delta (calculateGreeks 100 100 0 30 0.05 CE) = NaN \<and>
   delta (calculateGreeks 100 100 0 30 0.05 PE) = NaN \<and>
   \<not> between 0 1 (delta (calculateGreeks 100 100 0 30 0.05 CE)) \<and>
   \<not> between (- 1) 0 (delta (calculateGreeks 100 100 0 30 0.05 PE)) \<and>
   js_sub (delta (calculateGreeks 100 100 0 30 0.05 CE))
     (delta (calculateGreeks 100 100 0 30 0.05 PE)) = NaN"
proof -
  have call: "delta (calculateGreeks 100 100 0 30 0.05 CE) = NaN"
    by (simp add: calculateGreeks_def normalDistribution_def js_sub_def Let_def)
  have put: "delta (calculateGreeks 100 100 0 30 0.05 PE) = NaN"
    by (simp add: calculateGreeks_def normalDistribution_def js_sub_def Let_def)
  show ?thesis
    unfolding call put by (simp add: between_def js_sub_def)
qed

section \<open>Further properties of the indicators and of the lifecycle\<close>

lemma reduce_sum_sum_list: "reduce_sum xs = sum_list xs"
proof -
  have "foldl (+) a xs = a + sum_list xs" for a :: real
    by (induction xs arbitrary: a) simp_all
  then show ?thesis
    by (simp add: reduce_sum_def)
qed

lemma reduce_sum_nonneg: "(\<And>x. x \<in> set xs \<Longrightarrow> 0 \<le> x) \<Longrightarrow> 0 \<le> reduce_sum xs"
  by (simp add: reduce_sum_sum_list sum_list_nonneg)

lemma set_slice_last: "set (slice_last n xs) \<subseteq> set xs"
  by (auto simp: slice_last_def dest: in_set_dropD)

lemma trueRange_nonneg: "0 \<le> trueRange c prev"
proof -
  have "0 \<le> \<bar>high c - close prev\<bar>"
    by simp
  then show ?thesis
    unfolding trueRange_def by linarith
qed

text \<open>The MACD detector of the source never fires, whatever the candles.\<close>

theorem macd_detector_never_fires: "detectMACD candles = None"
  by (rule detectMACD_None)

text \<open>The ATR of \<open>UltimateStrategy\<close> is never negative.\<close>

theorem atr_nonnegative: "0 \<le> calculateATR candles period"
proof -
  have "0 \<le> reduce_sum (slice_last period (map (\<lambda>(c, prev). trueRange c prev) (with_prev candles)))"
  proof (rule reduce_sum_nonneg)
    fix x
    assume "x \<in> set (slice_last period (map (\<lambda>(c, prev). trueRange c prev) (with_prev candles)))"
    then have "x \<in> set (map (\<lambda>(c, prev). trueRange c prev) (with_prev candles))"
      by (rule subsetD [OF set_slice_last])
    then obtain c prev where "x = trueRange c prev"
      by auto
    then show "0 \<le> x"
      by (simp add: trueRange_nonneg)
  qed
  then show ?thesis
    by (simp add: calculateATR_def Let_def)
qed

text \<open>The ATR of \<open>UltimateStrategy\<close> is \<open>0\<close> on fewer than \<open>period\<close> candles.\<close>

theorem atr_zero_below_period: "length candles < period \<Longrightarrow> calculateATR candles period = 0"
  by (simp add: calculateATR_def)

theorem atr_zero_below_period_witness:
  "length tie_candles1h < 14 \<and> calculateATR tie_candles1h 14 = 0"
proof -
  have short: "length tie_candles1h < 14"
    by (simp add: tie_candles1h_def)
  show ?thesis
    using short atr_zero_below_period [OF short] by simp
qed

text \<open>The RSI of \<open>SignalDetectionService\<close> lies between \<open>0\<close> and 100.\<close>

theorem rsi_in_range: "0 \<le> calculateRSI candles period \<and> calculateRSI candles period \<le> 100"
proof -
  define changes where
    "changes = map (\<lambda>(c, prev). c - prev) (with_prev (map close candles))"
  define avgGain where "avgGain = reduce_sum (filter (\<lambda>c. c > 0) changes) / real period"
  define avgLoss where "avgLoss = reduce_sum (map abs (filter (\<lambda>c. c < 0) changes)) / real period"
  define rs where "rs = (if avgLoss = 0 then 0 else avgGain / avgLoss)"
  have "0 \<le> reduce_sum (filter (\<lambda>c. c > 0) changes)"
    by (rule reduce_sum_nonneg) auto
  then have gain: "0 \<le> avgGain"
    by (simp add: avgGain_def)
  have "0 \<le> reduce_sum (map abs (filter (\<lambda>c. c < 0) changes))"
    by (rule reduce_sum_nonneg) auto
  then have loss: "0 \<le> avgLoss"
    by (simp add: avgLoss_def)
  have rs: "0 \<le> rs"
    using gain loss by (simp add: rs_def)
  have rsi: "calculateRSI candles period = 100 - 100 / (1 + rs)"
    by (simp add: calculateRSI_def Let_def changes_def avgGain_def avgLoss_def rs_def)
  have "0 \<le> 100 / (1 + rs)" and "100 / (1 + rs) \<le> 100"
    using rs by (simp_all add: divide_le_eq)
  then show ?thesis
    by (simp add: rsi)
qed

text \<open>
  When the cancellation of the order fails, \<open>closeTrade\<close> throws the gateway's error, and
  the trade is still in the active set, already marked \<open>CLOSED\<close> with its exit price, its
  \<open>pnl\<close> and its closing time.
\<close>

theorem closeTrade_cancel_failure_keeps_changes:
  "map_of (activeTrades one_trade_executor) ''INFY_5'' = Some example_trade \<and>
   status example_trade = EXECUTED \<and>
   closeTrade example_config (cancel_fails_gateway 110) 9 ''INFY_5'' one_trade_executor =
     (Inl (GatewayError ''ETIMEDOUT''),
      \<lparr>activeTrades =
         [(''INFY_5'', example_trade\<lparr>status := CLOSED, exitPrice := Some 110,
                         pnl := Some 10, closedAt := Some 9\<rparr>)],
       calls = calls one_trade_executor @ [GetQuote [408065], CancelOrder ''ORD1'']\<rparr>)"
  by (simp add: close_cancel_fails_example) (simp add: one_trade_executor_def example_trade_def)

text \<open>
  For a spot price, a strike, a number of days and a volatility that are all positive, in
  exact arithmetic, the call delta is a number between \<open>0\<close> and 1 and the put delta is the
  call delta minus 1.
\<close>

theorem greeks_delta_on_valid_inputs:
  "0 < spotPrice \<and> 0 < strikePrice \<and> 0 < timeToExpiry \<and> 0 < volatility \<longrightarrow>
     (\<exists>c. delta (calculateGreeks spotPrice strikePrice timeToExpiry volatility riskFreeRate CE) =
            Num c \<and>
          delta (calculateGreeks spotPrice strikePrice timeToExpiry volatility riskFreeRate PE) =
            Num (c - 1) \<and>
          0 \<le> c \<and> c \<le> 1)"
proof
  assume valid: "0 < spotPrice \<and> 0 < strikePrice \<and> 0 < timeToExpiry \<and> 0 < volatility"
  obtain n where n: "normalDistribution
        (Num (real_d1 spotPrice strikePrice timeToExpiry volatility riskFreeRate)) = Num n"
      "0 \<le> n" "n \<le> 1"
    using normalDistribution_range by blast
  have call: "delta (calculateGreeks spotPrice strikePrice timeToExpiry volatility riskFreeRate CE) =
      Num (of_int \<lfloor>n * 100 + 1 / 2\<rfloor> / 100)"
    using valid by (simp add: delta_of_valid_inputs n(1))
  have put: "delta (calculateGreeks spotPrice strikePrice timeToExpiry volatility riskFreeRate PE) =
      Num (of_int \<lfloor>(n - 1) * 100 + 1 / 2\<rfloor> / 100)"
    using valid by (simp add: delta_of_valid_inputs n(1) js_sub_def)
  show "\<exists>c. delta (calculateGreeks spotPrice strikePrice timeToExpiry volatility riskFreeRate CE) =
            Num c \<and>
          delta (calculateGreeks spotPrice strikePrice timeToExpiry volatility riskFreeRate PE) =
            Num (c - 1) \<and>
          0 \<le> c \<and> c \<le> 1"
    using call put round_percent [OF n(2) n(3)] by (intro exI [of _ "of_int \<lfloor>n * 100 + 1 / 2\<rfloor> / 100"]) simp
qed

theorem greeks_delta_on_valid_inputs_witness:
  "(0 :: real) < 2750 \<and> (0 :: real) < 2800 \<and> (0 :: real) < 7 \<and> (0 :: real) < 30 \<and>
   (\<exists>c. delta (calculateGreeks 2750 2800 7 30 0.05 CE) = Num c \<and>
        delta (calculateGreeks 2750 2800 7 30 0.05 PE) = Num (c - 1) \<and> 0 \<le> c \<and> c \<le> 1)"
  using greeks_delta_on_valid_inputs [of 2750 2800 7 30 "0.05"] by simp

end
